theory Spec2Isabelle
  imports Complex_Main
begin

section \<open>Numbers, errors and arrays\<close>

text \<open>
  The tracers of \<^verbatim>\<open>rayopt/raytrace.py\<close> compute on numpy \<^verbatim>\<open>float64\<close> arrays.
  Finite floats are modelled by real numbers (no rounding). numpy does not raise on
  a division by zero of \<^verbatim>\<open>float64\<close> scalars: it warns and yields \<^verbatim>\<open>inf\<close> or
  \<^verbatim>\<open>nan\<close>. The value \<open>NonFinite\<close> stands for any of \<^verbatim>\<open>inf\<close>, \<^verbatim>\<open>-inf\<close>, \<^verbatim>\<open>nan\<close>.
  Only the operations whose result class does not depend on which of the three it is are
  defined on it: a subtraction with a non-finite operand is non-finite.
\<close>

datatype error = IndexError | LinAlgError | TypeError | ValueError

datatype npfloat = Fin real | NonFinite

definition np_div :: "real \<Rightarrow> real \<Rightarrow> npfloat" where
  "np_div a b = (if b = 0 then NonFinite else Fin (a / b))"

fun np_sub :: "npfloat \<Rightarrow> npfloat \<Rightarrow> npfloat" where
  "np_sub (Fin a) (Fin b) = Fin (a - b)"
| "np_sub _ _ = NonFinite"

text \<open>A 2x2 matrix \<^verbatim>\<open>[[m00, m01], [m10, m11]]\<close> and \<^verbatim>\<open>np.linalg.inv\<close>, which raises
  \<^verbatim>\<open>LinAlgError\<close> on a singular matrix.\<close>

record mat2 =
  m00 :: real
  m01 :: real
  m10 :: real
  m11 :: real

definition det2 :: "mat2 \<Rightarrow> real" where
  "det2 m = m00 m * m11 m - m01 m * m10 m"

definition inv2 :: "mat2 \<Rightarrow> error + mat2" where
  "inv2 m =
     (if det2 m = 0 then Inl LinAlgError
      else Inr \<lparr> m00 = m11 m / det2 m, m01 = - m01 m / det2 m,
                 m10 = - m10 m / det2 m, m11 = m00 m / det2 m \<rparr>)"

section \<open>The optical system (the collaborator the tracers read)\<close>

text \<open>
  The system, its surfaces and the object descriptor are not defined in
  \<^verbatim>\<open>raytrace.py\<close>; the tracers only call their methods and read their attributes.
  Each surface is a record of the attributes read and of the methods called, the methods
  being arbitrary functions (the attribute \<^verbatim>\<open>typ\<close> is the field
  \<open>el_typ\<close>). A paraxial ray pair \<^verbatim>\<open>yu\<close> is the 2x2 array
  \<^verbatim>\<open>[[y_m, u_m], [y_c, u_c]]\<close> (marginal row, chief row). The type \<open>'a\<close> is the type
  of the numbers held in the paraxial arrays, \<open>'c\<close> the type of an aberration tensor.
\<close>

type_synonym 'a yu = "('a \<times> 'a) \<times> ('a \<times> 'a)"

type_synonym vec3 = "real \<times> real \<times> real"

record ('a, 'c) element =
  el_typ :: string
  thickness :: real
  radius :: real
  propagate_paraxial :: "'a yu \<Rightarrow> 'a option \<Rightarrow> real list \<Rightarrow> 'a yu \<times> 'a"
  aberration :: "'a \<times> 'a \<Rightarrow> 'a \<times> 'a \<Rightarrow> 'a option \<Rightarrow> 'a \<Rightarrow> nat \<Rightarrow> 'c"
  dispersion :: "real list \<Rightarrow> real"
  transformed_yu :: "vec3 list \<Rightarrow> vec3 list \<Rightarrow> real list option \<Rightarrow> real list \<Rightarrow> bool
                     \<Rightarrow> vec3 list \<times> vec3 list \<times> real list \<times> real list"

record ('a, 'c) optical_system =
  elements :: "('a, 'c) element list"
  aperture_index :: nat
  object_finite :: bool
  object_radius :: real
  wavelengths :: "real list"
  paraxial_matrix :: "real list \<Rightarrow> nat \<Rightarrow> mat2"

section \<open>ParaxialTrace\<close>

text \<open>
  The arrays of \<^verbatim>\<open>ParaxialTrace.allocate\<close>: \<^verbatim>\<open>y\<close> and \<^verbatim>\<open>u\<close> have one row
  \<open>(marginal, chief)\<close> per surface. The fields carry the prefix \<open>pt_\<close> (\<open>ft_\<close> for
  \<^verbatim>\<open>FullTrace\<close>) since both classes name their arrays \<^verbatim>\<open>y, u, z, n, l\<close>.
  \<open>pt_k\<close> is \<^verbatim>\<open>self.c.shape[-1]\<close>, the aberration order.
\<close>

record ('a, 'c) paraxial_trace =
  pt_y :: "('a \<times> 'a) list"
  pt_u :: "('a \<times> 'a) list"
  pt_z :: "real list"
  pt_v :: "real list"
  pt_n :: "'a list"
  pt_c :: "'c list"
  pt_l :: "real list"
  pt_k :: nat

text \<open>\<^verbatim>\<open>allocate\<close> gives every array one row per surface (\<^verbatim>\<open>np.empty\<close>: the
  contents are arbitrary).\<close>

definition pt_allocated :: "('a, 'c) optical_system \<Rightarrow> ('a, 'c) paraxial_trace \<Rightarrow> bool" where
  "pt_allocated sys s \<longleftrightarrow>
     length (pt_y s) = length (elements sys) \<and> length (pt_u s) = length (elements sys) \<and>
     length (pt_z s) = length (elements sys) \<and> length (pt_v s) = length (elements sys) \<and>
     length (pt_n s) = length (elements sys) \<and> length (pt_c s) = length (elements sys)"

text \<open>
  The body of the loop of \<^verbatim>\<open>ParaxialTrace.propagate\<close> at index \<open>i\<close>: it returns the
  new values of the loop variables \<^verbatim>\<open>yu0, n0, z\<close> and the updated arrays. The loop
  raises \<^verbatim>\<open>IndexError\<close> at an index outside the system or outside an array.
\<close>

definition pt_in_range :: "('a, 'c) optical_system \<Rightarrow> ('a, 'c) paraxial_trace \<Rightarrow> nat \<Rightarrow> bool" where
  "pt_in_range sys s i \<longleftrightarrow>
     i < length (elements sys) \<and> i < length (pt_y s) \<and> i < length (pt_u s) \<and>
     i < length (pt_n s) \<and> i < length (pt_z s) \<and> i < length (pt_c s) \<and> i < length (pt_v s)"

definition propagate_body ::
  "('a, 'c) optical_system \<Rightarrow> nat \<Rightarrow> 'a yu \<Rightarrow> 'a option \<Rightarrow> real \<Rightarrow> ('a, 'c) paraxial_trace \<Rightarrow>
   'a yu \<times> 'a \<times> real \<times> ('a, 'c) paraxial_trace" where
  "propagate_body sys i yu0 n0 zacc s =
     (let el = elements sys ! i;
          zacc' = (if i > 0 then zacc + thickness el else zacc);
          (yu1, n1) = propagate_paraxial el yu0 n0 (pt_l s)
      in (yu1, n1, zacc',
          s \<lparr> pt_y := (pt_y s)[i := (fst (fst yu1), fst (snd yu1))],
              pt_u := (pt_u s)[i := (snd (fst yu1), snd (snd yu1))],
              pt_n := (pt_n s)[i := n1],
              pt_z := (pt_z s)[i := zacc'],
              pt_c := (pt_c s)[i := aberration el (fst (fst yu1), fst (snd yu1))
                                      (snd (fst yu0), snd (snd yu0)) n0 n1 (pt_k s)],
              pt_v := (pt_v s)[i := dispersion el (pt_l s)] \<rparr>))"

fun propagate_loop ::
  "('a, 'c) optical_system \<Rightarrow> nat list \<Rightarrow> 'a yu \<Rightarrow> 'a option \<Rightarrow> real \<Rightarrow>
   ('a, 'c) paraxial_trace \<Rightarrow> error + ('a, 'c) paraxial_trace" where
  "propagate_loop sys [] yu0 n0 zacc s = Inr s"
| "propagate_loop sys (i # rest) yu0 n0 zacc s =
     (if \<not> pt_in_range sys s i then Inl IndexError
      else
        case propagate_body sys i yu0 n0 zacc s of
          (yu1, n1, zacc', s') \<Rightarrow> propagate_loop sys rest yu1 (Some n1) zacc' s')"

text \<open>\<^verbatim>\<open>stop or self.length\<close>: \<^verbatim>\<open>None\<close> and \<^verbatim>\<open>0\<close> are both falsy.\<close>

definition stop_or_length :: "nat option \<Rightarrow> nat \<Rightarrow> nat" where
  "stop_or_length stop len = (case stop of None \<Rightarrow> len | Some k \<Rightarrow> if k = 0 then len else k)"

text \<open>\<^verbatim>\<open>np.array((self.y[i], self.u[i])).T\<close>: the ray pair held in row \<open>i\<close>.\<close>

definition yu_at :: "('a, 'c) paraxial_trace \<Rightarrow> nat \<Rightarrow> 'a yu" where
  "yu_at s i = ((fst (pt_y s ! i), fst (pt_u s ! i)), (snd (pt_y s ! i), snd (pt_u s ! i)))"

definition propagate ::
  "('a, 'c) optical_system \<Rightarrow> ('a, 'c) paraxial_trace \<Rightarrow> nat \<Rightarrow> nat option \<Rightarrow>
   error + ('a, 'c) paraxial_trace" where
  "propagate sys s start stop =
     (if pt_y s = [] \<or> pt_u s = [] then Inl IndexError
      else propagate_loop sys [start ..< stop_or_length stop (length (elements sys))]
             (yu_at s 0) None 0 s)"

text \<open>The quantity \<open>n (u_m y_c - u_c y_m)\<close> of a ray pair in a medium of index \<open>n\<close>.\<close>

definition lagrange_of :: "real yu \<Rightarrow> real \<Rightarrow> real" where
  "lagrange_of yu k = k * (snd (fst yu) * fst (snd yu) - snd (snd yu) * fst (fst yu))"

text \<open>
  Modelled from the spec: \<^verbatim>\<open>Surface.propagate_paraxial\<close> is not in
  \<^verbatim>\<open>raytrace.py\<close>. The specification says of it that it maps the incoming ray pair
  and index to the outgoing ones, and that the Lagrange invariant is conserved across a
  surface. \<open>conserves_lagrange l el\<close> says so of the surface \<open>el\<close>, for the wavelengths
  \<open>l\<close> and every incoming ray pair and index.
\<close>

definition conserves_lagrange :: "real list \<Rightarrow> (real, 'c) element \<Rightarrow> bool" where
  "conserves_lagrange l el \<longleftrightarrow>
     (\<forall>yu0 n0. lagrange_of (fst (propagate_paraxial el yu0 (Some n0) l))
                           (snd (propagate_paraxial el yu0 (Some n0) l)) = lagrange_of yu0 n0)"

section \<open>FullTrace.propagate\<close>

record full_trace =
  ft_y :: "vec3 list list"
  ft_u :: "vec3 list list"
  ft_n :: "real list list"
  ft_t :: "real list list"
  ft_z :: "real list"
  ft_l :: "real list"

definition ft_allocated :: "('a, 'c) optical_system \<Rightarrow> full_trace \<Rightarrow> bool" where
  "ft_allocated sys s \<longleftrightarrow>
     length (ft_y s) = length (elements sys) \<and> length (ft_u s) = length (elements sys) \<and>
     length (ft_n s) = length (elements sys) \<and> length (ft_t s) = length (elements sys) \<and>
     length (ft_z s) = length (elements sys)"

definition ft_in_range :: "full_trace \<Rightarrow> nat \<Rightarrow> bool" where
  "ft_in_range s i \<longleftrightarrow>
     i < length (ft_y s) \<and> i < length (ft_u s) \<and> i < length (ft_n s) \<and>
     i < length (ft_t s) \<and> i < length (ft_z s)"

text \<open>The loop of \<^verbatim>\<open>FullTrace.propagate\<close> over \<^verbatim>\<open>enumerate(self.system)\<close>: \<open>i\<close> is the
  index of the head of the remaining surfaces.\<close>

fun full_propagate_loop ::
  "('a, 'c) element list \<Rightarrow> nat \<Rightarrow> vec3 list \<Rightarrow> vec3 list \<Rightarrow> real list option \<Rightarrow> real \<Rightarrow>
   bool \<Rightarrow> full_trace \<Rightarrow> error + full_trace" where
  "full_propagate_loop [] i y0 u0 n0 zacc clip s = Inr s"
| "full_propagate_loop (e # es) i y0 u0 n0 zacc clip s =
     (if \<not> ft_in_range s i then Inl IndexError
      else
        let (y1, u1, n1, t1) = transformed_yu e y0 u0 n0 (ft_l s) clip;
            zacc' = zacc + thickness e;
            s' = s \<lparr> ft_y := (ft_y s)[i := y1], ft_u := (ft_u s)[i := u1],
                     ft_n := (ft_n s)[i := n1], ft_t := (ft_t s)[i := t1],
                     ft_z := (ft_z s)[i := zacc'] \<rparr>
        in full_propagate_loop es (Suc i) y1 u1 (Some n1) zacc' clip s')"

definition full_propagate ::
  "('a, 'c) optical_system \<Rightarrow> full_trace \<Rightarrow> bool \<Rightarrow> error + full_trace" where
  "full_propagate sys s clip =
     (case (ft_y s, ft_u s) of
        (y0 # _, u0 # _) \<Rightarrow> full_propagate_loop (elements sys) 0 y0 u0 None 0 clip s
      | _ \<Rightarrow> Inl IndexError)"

section \<open>Indexing and the derived properties\<close>

text \<open>Python indexing of a sequence: a negative index counts from the end, an index
  outside the sequence raises \<^verbatim>\<open>IndexError\<close>.\<close>

definition py_get :: "'a list \<Rightarrow> int \<Rightarrow> error + 'a" where
  "py_get xs i =
     (if 0 \<le> i \<and> i < int (length xs) then Inr (xs ! nat i)
      else if i < 0 \<and> - int (length xs) \<le> i then Inr (xs ! nat (int (length xs) + i))
      else Inl IndexError)"

text \<open>Sequencing of two fallible steps: the first error raised is the result.\<close>

definition and_then :: "error + 'a \<Rightarrow> ('a \<Rightarrow> error + 'b) \<Rightarrow> error + 'b" where
  "and_then m f = (case m of Inl e \<Rightarrow> Inl e | Inr x \<Rightarrow> f x)"

text \<open>
  The properties \<^verbatim>\<open>lagrange\<close> and \<^verbatim>\<open>magnification\<close> on a trace whose entries are
  finite. Their divisions are numpy divisions: a zero denominator gives a non-finite
  value, not an exception.
\<close>

definition lagrange :: "(real, 'c) paraxial_trace \<Rightarrow> error + real" where
  "lagrange s =
     and_then (py_get (pt_n s) 0) (\<lambda>n0.
     and_then (py_get (pt_u s) 0) (\<lambda>u0.
     and_then (py_get (pt_y s) 0) (\<lambda>y0.
       Inr (n0 * (fst u0 * snd y0 - snd u0 * fst y0)))))"

definition magnification :: "(real, 'c) paraxial_trace \<Rightarrow> error + npfloat \<times> npfloat" where
  "magnification s =
     and_then (py_get (pt_n s) 0) (\<lambda>n0.
     and_then (py_get (pt_u s) 0) (\<lambda>u0.
     and_then (py_get (pt_n s) (- 2)) (\<lambda>nl.
     and_then (py_get (pt_u s) (- 2)) (\<lambda>ul.
     and_then (py_get (pt_n s) 1) (\<lambda>n1.
       Inr (np_div (n0 * fst u0) (nl * fst ul),
            np_div (nl * snd ul) (n1 * snd u0)))))))"

section \<open>ParaxialTrace.find\_rays\<close>

text \<open>The assignments \<^verbatim>\<open>a[0, 0] = x\<close> and \<^verbatim>\<open>a[0, 1] = x\<close> on an array of rows.\<close>

definition set00 :: "('a \<times> 'a) list \<Rightarrow> 'a \<Rightarrow> error + ('a \<times> 'a) list" where
  "set00 a x = (case a of [] \<Rightarrow> Inl IndexError | row # rest \<Rightarrow> Inr ((x, snd row) # rest))"

definition set01 :: "('a \<times> 'a) list \<Rightarrow> 'a \<Rightarrow> error + ('a \<times> 'a) list" where
  "set01 a x = (case a of [] \<Rightarrow> Inl IndexError | row # rest \<Rightarrow> Inr ((fst row, x) # rest))"

text \<open>
  \<open>y_loc\<close> and \<open>u_loc\<close> are the local names \<^verbatim>\<open>y\<close> and \<^verbatim>\<open>u\<close> of the source, which
  are exchanged by \<^verbatim>\<open>y, u, m = u, y, mi[::-1]\<close> when the object is finite (the local
  \<^verbatim>\<open>m\<close> is not read afterwards). The two tuple assignments evaluate their right-hand
  sides first; the divisions are numpy divisions.
\<close>

definition find_rays ::
  "('a, 'c) optical_system \<Rightarrow> (npfloat, 'd) paraxial_trace \<Rightarrow> error + (npfloat, 'd) paraxial_trace" where
  "find_rays sys s =
     (let ai = aperture_index sys;
          m = paraxial_matrix sys (wavelengths sys) (ai + 1)
      in and_then (inv2 m) (\<lambda>mi.
         and_then (py_get (elements sys) (int ai)) (\<lambda>el.
           let r = radius el;
               c = object_radius sys;
               (y_loc, u_loc) = (if object_finite sys then (pt_u s, pt_y s) else (pt_y s, pt_u s));
               marg = np_sub (Fin (r * m00 mi)) (np_div (r * m01 mi * m10 mi) (m11 mi));
               chief = np_div (c * m01 mi) (m11 mi)
           in and_then (set00 y_loc marg) (\<lambda>y1.
              and_then (set00 u_loc (Fin 0)) (\<lambda>u1.
              and_then (set01 y1 chief) (\<lambda>y2.
              and_then (set01 u1 (Fin c)) (\<lambda>u2.
                Inr (if object_finite sys then s \<lparr> pt_y := u2, pt_u := y2 \<rparr>
                     else s \<lparr> pt_y := y2, pt_u := u2 \<rparr>))))))))"

text \<open>Row 0 of the two arrays of a result, for stating what \<^verbatim>\<open>find_rays\<close> wrote.\<close>

definition row0 :: "('a, 'c) paraxial_trace \<Rightarrow> ('a \<times> 'a) \<times> ('a \<times> 'a)" where
  "row0 s = (pt_y s ! 0, pt_u s ! 0)"

section \<open>FullTrace.get\_rays (the pupil sampler)\<close>

text \<open>
  The numpy functions the sampler calls, on real numbers.
  \<^verbatim>\<open>np.around\<close> rounds a half to the even neighbour; \<^verbatim>\<open>np.linspace(a, b, k)\<close> has
  \<open>k\<close> points with both ends included (one point: \<open>a\<close> alone), and so has an axis of
  \<^verbatim>\<open>np.mgrid[a:b:1j*k]\<close>; \<^verbatim>\<open>np.arange(start, stop, step)\<close> has
  \<open>ceil((stop - start) / step)\<close> points \<open>start + j * step\<close>.
\<close>

definition np_around :: "real \<Rightarrow> int" where
  "np_around x =
     (let f = \<lfloor>x\<rfloor> in
      if x - of_int f < 1 / 2 then f
      else if 1 / 2 < x - of_int f then f + 1
      else if even f then f else f + 1)"

definition linspace :: "real \<Rightarrow> real \<Rightarrow> nat \<Rightarrow> real list" where
  "linspace a b k =
     (if k = 1 then [a] else map (\<lambda>i. a + real i * ((b - a) / real (k - 1))) [0 ..< k])"

definition zeros :: "nat \<Rightarrow> real list" where
  "zeros k = replicate k 0"

definition np_arange :: "real \<Rightarrow> real \<Rightarrow> real \<Rightarrow> real list" where
  "np_arange start stop step =
     map (\<lambda>j. start + real j * step) [0 ..< nat \<lceil>(stop - start) / step\<rceil>]"

text \<open>\<^verbatim>\<open>xy[:, (xy**2).sum(0) <= 1]\<close>: the columns of the 2-row array inside the unit
  disk, in their order.\<close>

definition clip_disk :: "real list \<times> real list \<Rightarrow> real list \<times> real list" where
  "clip_disk xy =
     (let cols = filter (\<lambda>(x, y). x\<^sup>2 + y\<^sup>2 \<le> 1) (zip (fst xy) (snd xy))
      in (map fst cols, map snd cols))"

text \<open>\<^verbatim>\<open>x, y = np.mgrid[-1:1:1j*r, -1:1:1j*r]\<close> followed by
  \<^verbatim>\<open>np.array([x.ravel(), y.ravel()])\<close>: \<open>x\<close> is constant along a row of the grid,
  \<open>y\<close> runs along it, and \<^verbatim>\<open>ravel\<close> reads row after row.\<close>

definition mgrid_ravel :: "nat \<Rightarrow> real list \<times> real list" where
  "mgrid_ravel r =
     (let lin = linspace (- 1) 1 r
      in (concat (map (\<lambda>x. replicate r x) lin), concat (replicate r lin)))"

text \<open>
  \<^verbatim>\<open>get_rays(distribution, nrays)\<close>. The point count is a natural number; \<open>rand\<close> is
  the array drawn by \<^verbatim>\<open>np.random.rand\<close> (row, column). The integer divisions
  \<^verbatim>\<open>n/2\<close>, \<^verbatim>\<open>n/3\<close>, \<^verbatim>\<open>2*n/3\<close> truncate, and the float dimension
  \<^verbatim>\<open>n*4/np.pi\<close> is truncated to an integer. A name that matches no branch falls off
  the end of the \<^verbatim>\<open>if/elif\<close> chain: the function returns \<^verbatim>\<open>None\<close>, modelled by
  \<open>Inr None\<close>. For \<^verbatim>\<open>hexapolar\<close> with a negative radicand, \<^verbatim>\<open>np.sqrt\<close> is
  \<^verbatim>\<open>nan\<close> and \<^verbatim>\<open>int(nan)\<close> raises \<^verbatim>\<open>ValueError\<close>.
\<close>

definition hexapolar_ring :: "int \<Rightarrow> int \<Rightarrow> real list \<times> real list" where
  "hexapolar_ring r i =
     (let a = np_arange 0 (2 * pi) (2 * pi / of_int (6 * i))
      in (map (\<lambda>t. of_int i * sin t / of_int r) a, map (\<lambda>t. of_int i * cos t / of_int r) a))"

definition get_rays ::
  "(nat \<Rightarrow> nat \<Rightarrow> real) \<Rightarrow> string \<Rightarrow> nat \<Rightarrow> error + (real list \<times> real list) option" where
  "get_rays rand d n =
     (if d = ''random'' then
        let k = nat \<lfloor>real n * 4 / pi\<rfloor>
        in Inr (Some (clip_disk (map (\<lambda>j. 2 * rand 0 j - 1) [0 ..< k],
                                 map (\<lambda>j. 2 * rand 1 j - 1) [0 ..< k])))
      else if d = ''meridional'' then Inr (Some (linspace (- 1) 1 n, zeros n))
      else if d = ''sagittal'' then Inr (Some (zeros n, linspace (- 1) 1 n))
      else if d = ''square'' then
        let r = np_around (sqrt (real n * 4 / pi))
        in Inr (Some (clip_disk (mgrid_ravel (nat r))))
      else if d = ''triangular'' then
        let r = np_around (sqrt (real n * 4 / pi))
        in Inr (Some (clip_disk (mgrid_ravel (nat r))))
      else if d = ''hexapolar'' then
        if real n / 3 - 1 / 12 < 0 then Inl ValueError
        else
          let r = np_around (sqrt (real n / 3 - 1 / 12) - 1 / 2);
              rings = map (hexapolar_ring r) [1 .. r]
          in Inr (Some (0 # concat (map fst rings), 0 # concat (map snd rings)))
      else if d = ''cross'' then
        Inr (Some (linspace (- 1) 1 (n div 2) @ zeros (n div 2),
                   zeros (n div 2) @ linspace (- 1) 1 (n div 2)))
      else if d = ''tee'' then
        Inr (Some (linspace (- 1) 1 (2 * n div 3) @ zeros (n div 3),
                   zeros (2 * n div 3) @ linspace 0 1 (n div 3)))
      else Inr None)"

section \<open>Trace.print\_coeffs (the coefficient formatter)\<close>


















section \<open>Example systems\<close>

text \<open>
  Concrete inputs on which the theorems below are instantiated. \<open>example_surface\<close> is
  a refracting surface of curvature \<open>cv\<close> in front of a medium of index \<open>idx\<close>, reached
  after a gap \<open>t\<close>: transfer \<open>y' = y + t u\<close>, then refraction
  \<open>idx u' = n0 u - y' cv (idx - n0)\<close>; the object surface (no incoming index) takes
  its own index as the incoming one.
\<close>

definition example_ray :: "real \<Rightarrow> real \<Rightarrow> real \<Rightarrow> real \<Rightarrow> real \<times> real \<Rightarrow> real \<times> real" where
  "example_ray t cv idx n0 yu =
     (fst yu + t * snd yu, (n0 * snd yu - (fst yu + t * snd yu) * cv * (idx - n0)) / idx)"

definition example_surface :: "string \<Rightarrow> real \<Rightarrow> real \<Rightarrow> real \<Rightarrow> (real, unit) element" where
  "example_surface name t cv idx =
     \<lparr> el_typ = name, thickness = t, radius = 1,
       propagate_paraxial = (\<lambda>yu0 n0 l.
          let n = (case n0 of None \<Rightarrow> idx | Some k \<Rightarrow> k)
          in ((example_ray t cv idx n (fst yu0), example_ray t cv idx n (snd yu0)), idx)),
       aberration = (\<lambda>y1 u0 n0 n1 k. ()),
       dispersion = (\<lambda>l. 0),
       transformed_yu = (\<lambda>y0 u0 n0 l clip. (y0, u0, map (\<lambda>w. idx) l, map (\<lambda>w. t) l)) \<rparr>"

definition example_system :: "(real, unit) optical_system" where
  "example_system =
     \<lparr> elements = [example_surface ''O'' 5 0 1, example_surface ''S'' 2 (1 / 10) (3 / 2),
                   example_surface ''I'' 10 0 1],
       aperture_index = 1, object_finite = True, object_radius = 3, wavelengths = [1 / 2],
       paraxial_matrix = (\<lambda>l stop. \<lparr> m00 = 1, m01 = 2, m10 = 0, m11 = 1 \<rparr>) \<rparr>"


definition degenerate_system :: "(real, unit) optical_system" where
  "degenerate_system =
     example_system \<lparr> object_finite := False,
                      paraxial_matrix := (\<lambda>l stop. \<lparr> m00 = 0, m01 = 1, m10 = - 1, m11 = 0 \<rparr>) \<rparr>"

definition example_trace :: "(real, unit) paraxial_trace" where
  "example_trace =
     \<lparr> pt_y = [(1, 0), (7, 7), (7, 7)], pt_u = [(1 / 10, 1 / 5), (7, 7), (7, 7)],
       pt_z = [7, 7, 7], pt_v = [7, 7, 7], pt_n = [7, 7, 7], pt_c = [(), (), ()],
       pt_l = [1 / 2, 1 / 2, 1 / 2], pt_k = 4 \<rparr>"

definition example_npfloat_trace :: "(npfloat, unit) paraxial_trace" where
  "example_npfloat_trace =
     \<lparr> pt_y = [(Fin 7, Fin 7), (Fin 7, Fin 7), (Fin 7, Fin 7)],
       pt_u = [(Fin 7, Fin 7), (Fin 7, Fin 7), (Fin 7, Fin 7)],
       pt_z = [7, 7, 7], pt_v = [7, 7, 7], pt_n = [Fin 7, Fin 7, Fin 7], pt_c = [(), (), ()],
       pt_l = [1 / 2, 1 / 2, 1 / 2], pt_k = 4 \<rparr>"

definition example_full_trace :: full_trace where
  "example_full_trace =
     \<lparr> ft_y = [[(0, 0, 0)], [(7, 7, 7)], [(7, 7, 7)]],
       ft_u = [[(0, 0, 1)], [(7, 7, 7)], [(7, 7, 7)]],
       ft_n = [[7], [7], [7]], ft_t = [[7], [7], [7]], ft_z = [7, 7, 7], ft_l = [1 / 2] \<rparr>"

text \<open>A trace with different indices before and after the first surface.\<close>

definition immersed_trace :: "(real, unit) paraxial_trace" where
  "immersed_trace =
     \<lparr> pt_y = [(0, 3), (1, 1), (0, - 3)], pt_u = [(1 / 10, 1 / 5), (- 1 / 10, 1 / 5), (7, 7)],
       pt_z = [0, 2, 12], pt_v = [0, 0, 0], pt_n = [4 / 3, 3 / 2, 1], pt_c = [(), (), ()],
       pt_l = [1 / 2, 1 / 2, 1 / 2], pt_k = 4 \<rparr>"




section \<open>The loops of the two tracers\<close>

lemma pt_allocated_in_range:
  "pt_allocated sys s \<Longrightarrow> i < length (elements sys) \<Longrightarrow> pt_in_range sys s i"
  by (simp add: pt_allocated_def pt_in_range_def)

lemma propagate_body_result:
  assumes "propagate_body sys i yu0 n0 zacc s = (yu1, n1, zacc', s1)"
  shows "(yu1, n1) = propagate_paraxial (elements sys ! i) yu0 n0 (pt_l s)"
    and "zacc' = (if i > 0 then zacc + thickness (elements sys ! i) else zacc)"
    and "pt_y s1 = (pt_y s)[i := (fst (fst yu1), fst (snd yu1))]"
    and "pt_u s1 = (pt_u s)[i := (snd (fst yu1), snd (snd yu1))]"
    and "pt_n s1 = (pt_n s)[i := n1]"
    and "pt_z s1 = (pt_z s)[i := zacc']"
    and "pt_v s1 = (pt_v s)[i := dispersion (elements sys ! i) (pt_l s)]"
    and "pt_l s1 = pt_l s" and "pt_k s1 = pt_k s"
    and "length (pt_c s1) = length (pt_c s)"
  using assms
  by (auto simp: propagate_body_def Let_def split: prod.splits)

lemma propagate_body_allocated:
  assumes "propagate_body sys i yu0 n0 zacc s = (yu1, n1, zacc', s1)" and "pt_allocated sys s"
  shows "pt_allocated sys s1"
  using assms(2) propagate_body_result(3-7,10)[OF assms(1)]
  by (simp add: pt_allocated_def)

lemma propagate_loop_step:
  assumes "pt_allocated sys s" and "a < b" and "b \<le> length (elements sys)"
    and "propagate_body sys a yu0 n0 zacc s = (yu1, n1, zacc', s1)"
  shows "propagate_loop sys [a ..< b] yu0 n0 zacc s
           = propagate_loop sys [Suc a ..< b] yu1 (Some n1) zacc' s1"
proof -
  have "[a ..< b] = a # [Suc a ..< b]" using assms(2) by (simp add: upt_conv_Cons)
  moreover have "pt_in_range sys s a"
    using assms(1,2,3) by (simp add: pt_allocated_in_range)
  ultimately show ?thesis using assms(4) by simp
qed

lemma propagate_loop_frame:
  assumes "pt_allocated sys s" and "b \<le> length (elements sys)"
  shows "\<exists>s'. propagate_loop sys [a ..< b] yu0 n0 zacc s = Inr s' \<and> pt_allocated sys s' \<and>
           pt_l s' = pt_l s \<and>
           (\<forall>i. i < a \<or> b \<le> i \<longrightarrow>
               pt_z s' ! i = pt_z s ! i \<and> pt_y s' ! i = pt_y s ! i \<and>
               pt_u s' ! i = pt_u s ! i \<and> pt_n s' ! i = pt_n s ! i \<and> pt_v s' ! i = pt_v s ! i)"
  using assms
proof (induction "b - a" arbitrary: a yu0 n0 zacc s)
  case 0
  then show ?case by simp
next
  case (Suc d)
  then have ab: "a < b" by simp
  obtain yu1 n1 zacc' s1 where body: "propagate_body sys a yu0 n0 zacc s = (yu1, n1, zacc', s1)"
    by (metis prod_cases4)
  note r = propagate_body_result[OF body]
  have alloc1: "pt_allocated sys s1" by (rule propagate_body_allocated[OF body Suc.prems(1)])
  have d: "d = b - Suc a" using Suc.hyps(2) by simp
  from Suc.hyps(1)[OF d alloc1 Suc.prems(2), of yu1 "Some n1" zacc']
  obtain s' where s': "propagate_loop sys [Suc a ..< b] yu1 (Some n1) zacc' s1 = Inr s'"
      "pt_allocated sys s'" "pt_l s' = pt_l s1"
      "\<forall>i. i < Suc a \<or> b \<le> i \<longrightarrow>
               pt_z s' ! i = pt_z s1 ! i \<and> pt_y s' ! i = pt_y s1 ! i \<and>
               pt_u s' ! i = pt_u s1 ! i \<and> pt_n s' ! i = pt_n s1 ! i \<and> pt_v s' ! i = pt_v s1 ! i"
    by blast
  have "pt_z s' ! i = pt_z s ! i \<and> pt_y s' ! i = pt_y s ! i \<and>
        pt_u s' ! i = pt_u s ! i \<and> pt_n s' ! i = pt_n s ! i \<and> pt_v s' ! i = pt_v s ! i" if "i < a \<or> b \<le> i" for i
  proof -
    have "i \<noteq> a" and "i < Suc a \<or> b \<le> i" using that ab by auto
    then show ?thesis using s'(4)[rule_format, of i] r(3-7) by simp
  qed
  then show ?case
    using propagate_loop_step[OF Suc.prems(1) ab Suc.prems(2) body] s'(1,2,3) r(8) by simp
qed

lemma propagate_loop_rows:
  assumes "pt_allocated sys s" and "b \<le> length (elements sys)"
    and "propagate_loop sys [a ..< b] yu0 n0 zacc s = Inr s'"
    and "a \<le> i" and "i < b"
  shows "pt_z s' ! i = zacc + (\<Sum>j \<in> {max a 1 ..< Suc i}. thickness (elements sys ! j)) \<and>
         pt_v s' ! i = dispersion (elements sys ! i) (pt_l s)"
  using assms
proof (induction "b - a" arbitrary: a yu0 n0 zacc s)
  case 0
  then show ?case by simp
next
  case (Suc d)
  have ab: "a < b" and al: "a < length (elements sys)" using Suc.prems(2,4,5) by simp_all
  obtain yu1 n1 zacc' s1 where body: "propagate_body sys a yu0 n0 zacc s = (yu1, n1, zacc', s1)"
    by (metis prod_cases4)
  note r = propagate_body_result[OF body]
  have alloc1: "pt_allocated sys s1" by (rule propagate_body_allocated[OF body Suc.prems(1)])
  have rest: "propagate_loop sys [Suc a ..< b] yu1 (Some n1) zacc' s1 = Inr s'"
    using propagate_loop_step[OF Suc.prems(1) ab Suc.prems(2) body] Suc.prems(3) by simp
  have d: "d = b - Suc a" using Suc.hyps(2) by simp
  show ?case
  proof (cases "i = a")
    case True
    from propagate_loop_frame[OF alloc1 Suc.prems(2), of "Suc a" yu1 "Some n1" zacc'] rest
    have keep: "pt_z s' ! a = pt_z s1 ! a" "pt_v s' ! a = pt_v s1 ! a"
      by auto
    have lz: "a < length (pt_z s)" and lv: "a < length (pt_v s)"
      using Suc.prems(1) al by (simp_all add: pt_allocated_def)
    have "pt_z s' ! a = zacc'" using keep(1) r(6) lz by simp
    moreover have "zacc' = zacc + (\<Sum>j \<in> {max a 1 ..< Suc a}. thickness (elements sys ! j))"
      using r(2) by (cases "a = 0") simp_all
    moreover have "pt_v s' ! a = dispersion (elements sys ! a) (pt_l s)"
      using keep(2) r(7) lv by simp
    ultimately show ?thesis using True by simp
  next
    case False
    then have ai: "Suc a \<le> i" using Suc.prems(4) by simp
    from Suc.hyps(1)[OF d alloc1 Suc.prems(2) rest ai Suc.prems(5)]
    have ih: "pt_z s' ! i = zacc' + (\<Sum>j \<in> {max (Suc a) 1 ..< Suc i}. thickness (elements sys ! j))"
        "pt_v s' ! i = dispersion (elements sys ! i) (pt_l s1)"
      by simp_all
    have "zacc' + (\<Sum>j \<in> {Suc a ..< Suc i}. thickness (elements sys ! j))
        = zacc + (\<Sum>j \<in> {max a 1 ..< Suc i}. thickness (elements sys ! j))"
    proof (cases "a = 0")
      case True
      then show ?thesis using ai r(2) by simp
    next
      case False
      then have "max a 1 = a" by simp
      moreover have "{a ..< Suc i} = insert a {Suc a ..< Suc i}" using ai by auto
      ultimately show ?thesis using False r(2) by simp
    qed
    then show ?thesis using ih r(8) by simp
  qed
qed


lemma propagate_loop_lagrange:
  assumes "pt_allocated sys s" and "b \<le> length (elements sys)"
    and "propagate_loop sys [a ..< b] yu0 (Some n0) zacc s = Inr s'"
    and "\<forall>j. a \<le> j \<and> j < b \<longrightarrow> conserves_lagrange (pt_l s) (elements sys ! j)"
    and "a \<le> i" and "i < b"
  shows "lagrange_of (yu_at s' i) (pt_n s' ! i) = lagrange_of yu0 n0"
  using assms
proof (induction "b - a" arbitrary: a yu0 n0 zacc s)
  case 0
  then show ?case by simp
next
  case (Suc d)
  have ab: "a < b" and al: "a < length (elements sys)" using Suc.prems(2,5,6) by simp_all
  obtain yu1 n1 zacc' s1 where
    body: "propagate_body sys a yu0 (Some n0) zacc s = (yu1, n1, zacc', s1)"
    by (metis prod_cases4)
  note r = propagate_body_result[OF body]
  have alloc1: "pt_allocated sys s1" by (rule propagate_body_allocated[OF body Suc.prems(1)])
  have rest: "propagate_loop sys [Suc a ..< b] yu1 (Some n1) zacc' s1 = Inr s'"
    using propagate_loop_step[OF Suc.prems(1) ab Suc.prems(2) body] Suc.prems(3) by simp
  have "conserves_lagrange (pt_l s) (elements sys ! a)" using Suc.prems(4) ab by simp
  then have cons: "lagrange_of yu1 n1 = lagrange_of yu0 n0"
    unfolding conserves_lagrange_def using r(1)[symmetric] by (metis fst_conv snd_conv)
  show ?case
  proof (cases "i = a")
    case True
    from propagate_loop_frame[OF alloc1 Suc.prems(2), of "Suc a" yu1 "Some n1" zacc'] rest
    have keep: "pt_y s' ! a = pt_y s1 ! a" "pt_u s' ! a = pt_u s1 ! a" "pt_n s' ! a = pt_n s1 ! a"
      by auto
    have len: "a < length (pt_y s)" "a < length (pt_u s)" "a < length (pt_n s)"
      using Suc.prems(1) al by (simp_all add: pt_allocated_def)
    have "yu_at s' a = yu1" using keep(1,2) r(3,4) len by (simp add: yu_at_def)
    moreover have "pt_n s' ! a = n1" using keep(3) r(5) len by simp
    ultimately show ?thesis using True cons by simp
  next
    case False
    then have ai: "Suc a \<le> i" using Suc.prems(5) by simp
    have d: "d = b - Suc a" using Suc.hyps(2) by simp
    have c1: "\<forall>j. Suc a \<le> j \<and> j < b \<longrightarrow> conserves_lagrange (pt_l s1) (elements sys ! j)"
      using Suc.prems(4) r(8) by simp
    from Suc.hyps(1)[OF d alloc1 Suc.prems(2) rest c1 ai Suc.prems(6)] cons
    show ?thesis by simp
  qed
qed

lemma propagate_from_start:
  assumes "pt_allocated sys s" and "elements sys \<noteq> []"
  shows "propagate sys s 0 None
           = (case propagate_body sys 0 (yu_at s 0) None 0 s of
                (yu1, n1, zacc', s1) \<Rightarrow>
                  propagate_loop sys [1 ..< length (elements sys)] yu1 (Some n1) zacc' s1)"
proof -
  obtain yu1 n1 zacc' s1 where
    body: "propagate_body sys 0 (yu_at s 0) None 0 s = (yu1, n1, zacc', s1)"
    by (metis prod_cases4)
  have ne: "pt_y s \<noteq> []" "pt_u s \<noteq> []"
    using assms by (auto simp: pt_allocated_def)
  have pos: "0 < length (elements sys)" using assms(2) by simp
  show ?thesis
    using ne body propagate_loop_step[OF assms(1) pos order_refl body]
    by (simp add: propagate_def stop_or_length_def)
qed

lemma lagrange_row0:
  assumes "pt_y s \<noteq> []" and "pt_u s \<noteq> []" and "pt_n s \<noteq> []"
  shows "lagrange s = Inr (lagrange_of (yu_at s 0) (pt_n s ! 0))"
  using assms
  by (simp add: lagrange_def py_get_def and_then_def lagrange_of_def yu_at_def)

text \<open>
  Claim C2. When every surface after the object conserves the Lagrange invariant, then
  after \<^verbatim>\<open>propagate()\<close> (all surfaces, from allocated arrays) the quantity
  \<open>n[i] (u_m[i] y_c[i] - u_c[i] y_m[i])\<close> at every surface \<open>i\<close> equals the value
  that the property \<^verbatim>\<open>lagrange\<close> reports from row 0. The loop threads the outgoing
  ray pair and index of a surface into the next one, and no later pass overwrites a row.
\<close>

theorem lagrange_conserved_after_propagate:
  assumes "pt_allocated sys s" and "elements sys \<noteq> []"
    and "\<forall>j. 0 < j \<and> j < length (elements sys) \<longrightarrow> conserves_lagrange (pt_l s) (elements sys ! j)"
  shows "\<exists>s' L. propagate sys s 0 None = Inr s' \<and> lagrange s' = Inr L \<and>
           (\<forall>i < length (elements sys).
              pt_n s' ! i * (fst (pt_u s' ! i) * snd (pt_y s' ! i)
                             - snd (pt_u s' ! i) * fst (pt_y s' ! i)) = L)"
proof -
  obtain yu1 n1 zacc' s1 where
    body: "propagate_body sys 0 (yu_at s 0) None 0 s = (yu1, n1, zacc', s1)"
    by (metis prod_cases4)
  note r = propagate_body_result[OF body]
  have alloc1: "pt_allocated sys s1" by (rule propagate_body_allocated[OF body assms(1)])
  from propagate_loop_frame[OF alloc1 order_refl, of 1 yu1 "Some n1" zacc']
  obtain s' where s': "propagate_loop sys [1 ..< length (elements sys)] yu1 (Some n1) zacc' s1 = Inr s'"
      "pt_allocated sys s'"
      "pt_y s' ! 0 = pt_y s1 ! 0" "pt_u s' ! 0 = pt_u s1 ! 0" "pt_n s' ! 0 = pt_n s1 ! 0"
    by auto
  have run: "propagate sys s 0 None = Inr s'"
    using propagate_from_start[OF assms(1,2)] body s'(1) by simp
  have len: "0 < length (pt_y s)" "0 < length (pt_u s)" "0 < length (pt_n s)"
    using assms(1,2) by (simp_all add: pt_allocated_def)
  have row0: "yu_at s' 0 = yu1" "pt_n s' ! 0 = n1"
    using s'(3,4,5) r(3,4,5) len by (simp_all add: yu_at_def)
  have ne': "pt_y s' \<noteq> []" "pt_u s' \<noteq> []" "pt_n s' \<noteq> []"
    using s'(2) assms(2) by (auto simp: pt_allocated_def)
  have lag: "lagrange s' = Inr (lagrange_of yu1 n1)"
    using lagrange_row0[OF ne'] row0 by simp
  have "lagrange_of (yu_at s' i) (pt_n s' ! i) = lagrange_of yu1 n1"
    if "i < length (elements sys)" for i
  proof (cases "i = 0")
    case True
    then show ?thesis using row0 by simp
  next
    case False
    then have i1: "1 \<le> i" by simp
    have c1: "\<forall>j. 1 \<le> j \<and> j < length (elements sys) \<longrightarrow> conserves_lagrange (pt_l s1) (elements sys ! j)"
      using assms(3) r(8) by simp
    show ?thesis
      by (rule propagate_loop_lagrange[OF alloc1 order_refl s'(1) c1 i1 that])
  qed
  then have "\<forall>i < length (elements sys).
              pt_n s' ! i * (fst (pt_u s' ! i) * snd (pt_y s' ! i)
                             - snd (pt_u s' ! i) * fst (pt_y s' ! i)) = lagrange_of yu1 n1"
    by (simp add: lagrange_of_def yu_at_def)
  then show ?thesis using run lag by blast
qed


lemma full_propagate_loop_z:
  assumes "ft_allocated sys s" and "i + length es \<le> length (elements sys)"
  shows "\<exists>s'. full_propagate_loop es i y0 u0 n0 zacc clip s = Inr s' \<and> ft_allocated sys s' \<and>
           (\<forall>m < i. ft_z s' ! m = ft_z s ! m) \<and>
           (\<forall>k < length es. ft_z s' ! (i + k) = zacc + (\<Sum>j < Suc k. thickness (es ! j)))"
  using assms
proof (induction es arbitrary: i y0 u0 n0 zacc s)
  case Nil
  then show ?case by simp
next
  case (Cons e es)
  then have il: "i < length (elements sys)" by simp
  have rng: "ft_in_range s i"
    using Cons.prems(1) il by (simp add: ft_allocated_def ft_in_range_def)
  obtain y1 u1 n1 t1 where tr: "transformed_yu e y0 u0 n0 (ft_l s) clip = (y1, u1, n1, t1)"
    by (metis prod_cases4)
  define s1 where "s1 = s \<lparr> ft_y := (ft_y s)[i := y1], ft_u := (ft_u s)[i := u1],
                     ft_n := (ft_n s)[i := n1], ft_t := (ft_t s)[i := t1],
                     ft_z := (ft_z s)[i := zacc + thickness e] \<rparr>"
  have step: "full_propagate_loop (e # es) i y0 u0 n0 zacc clip s
                = full_propagate_loop es (Suc i) y1 u1 (Some n1) (zacc + thickness e) clip s1"
    using rng tr by (simp add: s1_def Let_def)
  have alloc1: "ft_allocated sys s1"
    using Cons.prems(1) by (simp add: ft_allocated_def s1_def)
  have len: "Suc i + length es \<le> length (elements sys)" using Cons.prems(2) by simp
  from Cons.IH[OF alloc1 len, of y1 u1 "Some n1" "zacc + thickness e"]
  obtain s' where s': "full_propagate_loop es (Suc i) y1 u1 (Some n1) (zacc + thickness e) clip s1 = Inr s'"
      "ft_allocated sys s'"
      "\<forall>m < Suc i. ft_z s' ! m = ft_z s1 ! m"
      "\<forall>k < length es. ft_z s' ! (Suc i + k) = zacc + thickness e + (\<Sum>j < Suc k. thickness (es ! j))"
    by blast
  have zi: "ft_z s1 ! i = zacc + thickness e"
    using Cons.prems(1) il by (simp add: s1_def ft_allocated_def)
  have zo: "\<And>m. m < i \<Longrightarrow> ft_z s1 ! m = ft_z s ! m"
    by (simp add: s1_def)
  have old: "\<forall>m < i. ft_z s' ! m = ft_z s ! m"
    using s'(3) zo by simp
  have new: "ft_z s' ! (i + k) = zacc + (\<Sum>j < Suc k. thickness ((e # es) ! j))"
    if "k < length (e # es)" for k
  proof (cases k)
    case 0
    then show ?thesis using s'(3) zi by simp
  next
    case (Suc k')
    then have "k' < length es" using that by simp
    then have "ft_z s' ! (Suc i + k') = zacc + thickness e + (\<Sum>j < Suc k'. thickness (es ! j))"
      using s'(4) by blast
    moreover have "(\<Sum>j < Suc (Suc k'). thickness ((e # es) ! j))
                   = thickness e + (\<Sum>j < Suc k'. thickness (es ! j))"
      by (subst sum.lessThan_Suc_shift) simp
    ultimately show ?thesis using Suc by simp
  qed
  show ?case using step s'(1,2) old new by simp
qed

lemma propagate_all_rows:
  assumes "pt_allocated sys s" and "elements sys \<noteq> []"
  shows "\<exists>s'. propagate sys s 0 None = Inr s' \<and>
           (\<forall>i < length (elements sys).
              pt_z s' ! i = (\<Sum>j \<in> {1 ..< Suc i}. thickness (elements sys ! j)) \<and>
              pt_v s' ! i = dispersion (elements sys ! i) (pt_l s))"
proof -
  have ne: "pt_y s \<noteq> []" "pt_u s \<noteq> []"
    using assms by (auto simp: pt_allocated_def)
  have run: "propagate sys s 0 None
               = propagate_loop sys [0 ..< length (elements sys)] (yu_at s 0) None 0 s"
    using ne by (simp add: propagate_def stop_or_length_def)
  from propagate_loop_frame[OF assms(1) order_refl, of 0 "yu_at s 0" None 0]
  obtain s' where s': "propagate_loop sys [0 ..< length (elements sys)] (yu_at s 0) None 0 s = Inr s'"
    by blast
  have "pt_z s' ! i = (\<Sum>j \<in> {1 ..< Suc i}. thickness (elements sys ! j)) \<and>
        pt_v s' ! i = dispersion (elements sys ! i) (pt_l s)" if "i < length (elements sys)" for i
    using propagate_loop_rows[OF assms(1) order_refl s' le0 that] by simp
  then show ?thesis using run s' by simp
qed

text \<open>
  Claim C8. After \<^verbatim>\<open>FullTrace.propagate\<close>, \<open>z[i]\<close> is the sum of the thicknesses of
  the surfaces \<open>0..i\<close>; after \<^verbatim>\<open>ParaxialTrace.propagate()\<close>, \<open>z[0] = 0\<close> and \<open>z[i]\<close>
  is the sum of the thicknesses of the surfaces \<open>1..i\<close>. On the same system the two arrays
  differ by the thickness of the first surface at every index.
\<close>

theorem axial_positions_differ_by_first_thickness:
  assumes "pt_allocated sys ps" and "ft_allocated sys fs" and "elements sys \<noteq> []"
  shows "\<exists>ps' fs'. propagate sys ps 0 None = Inr ps' \<and> full_propagate sys fs clip = Inr fs' \<and>
           pt_z ps' ! 0 = 0 \<and>
           (\<forall>i < length (elements sys).
              ft_z fs' ! i = (\<Sum>j < Suc i. thickness (elements sys ! j)) \<and>
              pt_z ps' ! i = (\<Sum>j \<in> {1 ..< Suc i}. thickness (elements sys ! j)) \<and>
              ft_z fs' ! i = pt_z ps' ! i + thickness (elements sys ! 0))"
proof -
  from propagate_all_rows[OF assms(1,3)]
  obtain ps' where ps': "propagate sys ps 0 None = Inr ps'"
      "\<forall>i < length (elements sys). pt_z ps' ! i = (\<Sum>j \<in> {1 ..< Suc i}. thickness (elements sys ! j))"
    by blast
  have ne: "ft_y fs \<noteq> []" "ft_u fs \<noteq> []"
    using assms(2,3) by (auto simp: ft_allocated_def)
  then obtain y0 yr u0 ur where hd: "ft_y fs = y0 # yr" "ft_u fs = u0 # ur"
    by (metis list.exhaust)
  have run: "full_propagate sys fs clip = full_propagate_loop (elements sys) 0 y0 u0 None 0 clip fs"
    by (simp add: full_propagate_def hd)
  from full_propagate_loop_z[OF assms(2), of 0 "elements sys" y0 u0 None 0 clip]
  obtain fs' where fs': "full_propagate_loop (elements sys) 0 y0 u0 None 0 clip fs = Inr fs'"
      "\<forall>k < length (elements sys). ft_z fs' ! k = (\<Sum>j < Suc k. thickness (elements sys ! j))"
    by auto
  have split: "(\<Sum>j < Suc i. thickness (elements sys ! j))
                 = (\<Sum>j \<in> {1 ..< Suc i}. thickness (elements sys ! j)) + thickness (elements sys ! 0)" for i
  proof -
    have "{..<Suc i} = insert 0 {1 ..< Suc i}" by auto
    then show ?thesis by simp
  qed
  have z0: "pt_z ps' ! 0 = 0" using ps'(2) assms(3) by simp
  show ?thesis using ps' run fs' split z0 by simp
qed

text \<open>
  Claim C9. \<^verbatim>\<open>propagate(start, stop=0)\<close> is \<^verbatim>\<open>propagate(start)\<close>: the stop \<open>0\<close> is
  falsy and is replaced by the length of the system. From allocated arrays,
  \<^verbatim>\<open>propagate(0, 0)\<close> returns with the row of every surface written (axial position
  and dispersion), not with no surface visited.
\<close>

theorem propagate_stop_zero_traces_all:
  "propagate sys s start (Some 0) = propagate sys s start None \<and>
   (pt_allocated sys s \<and> elements sys \<noteq> [] \<longrightarrow>
      (\<exists>s'. propagate sys s 0 (Some 0) = Inr s' \<and>
         (\<forall>i < length (elements sys).
            pt_z s' ! i = (\<Sum>j \<in> {1 ..< Suc i}. thickness (elements sys ! j)) \<and>
            pt_v s' ! i = dispersion (elements sys ! i) (pt_l s))))"
proof -
  have same: "propagate sys s k (Some 0) = propagate sys s k None" for k
    by (simp add: propagate_def stop_or_length_def)
  show ?thesis using same propagate_all_rows[of sys s] by simp
qed


lemma example_surface_conserves:
  assumes "idx \<noteq> 0"
  shows "conserves_lagrange l (example_surface name t cv idx)"
  using assms
  by (simp add: conserves_lagrange_def example_surface_def example_ray_def lagrange_of_def
      Let_def field_simps)

lemma example_system_allocated:
  "pt_allocated example_system example_trace" "ft_allocated example_system example_full_trace"
  "elements example_system \<noteq> []" "length (elements example_system) = 3"
  by (simp_all add: pt_allocated_def ft_allocated_def example_system_def example_trace_def
      example_full_trace_def)

lemma example_system_conserves:
  "\<forall>j. 0 < j \<and> j < length (elements example_system) \<longrightarrow>
       conserves_lagrange (pt_l example_trace) (elements example_system ! j)"
proof (intro allI impI)
  fix j :: nat
  assume "0 < j \<and> j < length (elements example_system)"
  then have "j = 1 \<or> j = 2" using example_system_allocated(4) by auto
  then show "conserves_lagrange (pt_l example_trace) (elements example_system ! j)"
    by (auto simp: example_system_def example_surface_conserves)
qed

theorem lagrange_conserved_after_propagate_witness:
  "pt_allocated example_system example_trace \<and> elements example_system \<noteq> [] \<and>
   length (elements example_system) = 3 \<and>
   conserves_lagrange (pt_l example_trace) (elements example_system ! 1) \<and>
   conserves_lagrange (pt_l example_trace) (elements example_system ! 2) \<and>
   (\<exists>s' L. propagate example_system example_trace 0 None = Inr s' \<and> lagrange s' = Inr L \<and>
      (\<forall>i < length (elements example_system).
          pt_n s' ! i * (fst (pt_u s' ! i) * snd (pt_y s' ! i)
                         - snd (pt_u s' ! i) * fst (pt_y s' ! i)) = L))"
  using lagrange_conserved_after_propagate[OF example_system_allocated(1,3) example_system_conserves]
    example_system_allocated(1,3,4) example_system_conserves
  by simp

theorem axial_positions_witness:
  "pt_allocated example_system example_trace \<and> ft_allocated example_system example_full_trace \<and>
   elements example_system \<noteq> [] \<and>
   (\<exists>ps' fs'. propagate example_system example_trace 0 None = Inr ps' \<and>
       full_propagate example_system example_full_trace True = Inr fs' \<and> pt_z ps' ! 0 = 0 \<and>
       ft_z fs' ! 2 = 17 \<and> pt_z ps' ! 2 = 12 \<and>
       ft_z fs' ! 2 = pt_z ps' ! 2 + thickness (elements example_system ! 0))"
proof -
  from axial_positions_differ_by_first_thickness[OF example_system_allocated(1,2,3), of True]
  obtain ps' fs' where r: "propagate example_system example_trace 0 None = Inr ps'"
      "full_propagate example_system example_full_trace True = Inr fs'" "pt_z ps' ! 0 = 0"
      "\<forall>i < length (elements example_system).
          ft_z fs' ! i = (\<Sum>j < Suc i. thickness (elements example_system ! j)) \<and>
          pt_z ps' ! i = (\<Sum>j \<in> {1 ..< Suc i}. thickness (elements example_system ! j)) \<and>
          ft_z fs' ! i = pt_z ps' ! i + thickness (elements example_system ! 0)"
    by blast
  have two: "2 < length (elements example_system)" by (simp add: example_system_allocated(4))
  have f: "ft_z fs' ! 2 = (\<Sum>j < Suc 2. thickness (elements example_system ! j))"
    and p: "pt_z ps' ! 2 = (\<Sum>j \<in> {1 ..< Suc 2}. thickness (elements example_system ! j))"
    and d: "ft_z fs' ! 2 = pt_z ps' ! 2 + thickness (elements example_system ! 0)"
    using r(4) two by blast+
  have "(\<Sum>j < Suc 2. thickness (elements example_system ! j)) = 17"
    by (simp add: example_system_def example_surface_def lessThan_Suc eval_nat_numeral)
  moreover have "(\<Sum>j \<in> {1 ..< Suc 2}. thickness (elements example_system ! j)) = 12"
    by (simp add: example_system_def example_surface_def eval_nat_numeral)
  ultimately show ?thesis using r(1,2,3) f p d example_system_allocated(1,2,3) by auto
qed

theorem propagate_stop_zero_witness:
  "propagate example_system example_trace 0 (Some 0) = propagate example_system example_trace 0 None \<and>
   pt_allocated example_system example_trace \<and> elements example_system \<noteq> [] \<and>
   (\<exists>s'. propagate example_system example_trace 0 (Some 0) = Inr s' \<and>
      (\<forall>i < length (elements example_system).
          pt_z s' ! i = (\<Sum>j \<in> {1 ..< Suc i}. thickness (elements example_system ! j)) \<and>
          pt_v s' ! i = dispersion (elements example_system ! i) (pt_l example_trace)))"
  using propagate_stop_zero_traces_all[of example_system example_trace 0]
    example_system_allocated(1,3)
  by blast

section \<open>The starting rays and the magnification\<close>

text \<open>\<open>inv2\<close> returns the inverse: the product of a matrix and its result is the
  identity.\<close>

lemma inv2_is_inverse:
  assumes "inv2 m = Inr mi"
  shows "m00 m * m00 mi + m01 m * m10 mi = 1" and "m00 m * m01 mi + m01 m * m11 mi = 0"
    and "m10 m * m00 mi + m11 m * m10 mi = 0" and "m10 m * m01 mi + m11 m * m11 mi = 1"
proof -
  have d: "det2 m \<noteq> 0" and mi: "mi = \<lparr> m00 = m11 m / det2 m, m01 = - m01 m / det2 m,
                 m10 = - m10 m / det2 m, m11 = m00 m / det2 m \<rparr>"
    using assms by (auto simp: inv2_def split: if_splits)
  have e: "m00 m * m11 m - m01 m * m10 m = det2 m" by (simp add: det2_def)
  show "m00 m * m00 mi + m01 m * m10 mi = 1"
    using d e by (simp add: mi field_simps)
  show "m00 m * m01 mi + m01 m * m11 mi = 0"
    using d by (simp add: mi field_simps)
  show "m10 m * m00 mi + m11 m * m10 mi = 0"
    using d by (simp add: mi field_simps)
  show "m10 m * m01 mi + m11 m * m11 mi = 1"
    using d e by (simp add: mi field_simps)
qed

lemma set00_Cons: "set00 (row # rest) x = Inr ((x, snd row) # rest)"
  by (simp add: set00_def)

lemma set01_Cons: "set01 (row # rest) x = Inr ((fst row, x) # rest)"
  by (simp add: set01_def)

lemma find_rays_rows:
  assumes "inv2 (paraxial_matrix sys (wavelengths sys) (aperture_index sys + 1)) = Inr mi"
    and "aperture_index sys < length (elements sys)"
    and "pt_y s \<noteq> []" and "pt_u s \<noteq> []"
  shows "\<exists>s'. find_rays sys s = Inr s' \<and>
           (let r = radius (elements sys ! aperture_index sys);
                c = object_radius sys;
                solved = (np_sub (Fin (r * m00 mi)) (np_div (r * m01 mi * m10 mi) (m11 mi)),
                          np_div (c * m01 mi) (m11 mi));
                fixed = (Fin 0, Fin c)
            in if object_finite sys then pt_u s' ! 0 = solved \<and> pt_y s' ! 0 = fixed
               else pt_y s' ! 0 = solved \<and> pt_u s' ! 0 = fixed)"
proof -
  obtain yr ys ur us where hd: "pt_y s = yr # ys" "pt_u s = ur # us"
    using assms(3,4) by (metis list.exhaust)
  have el: "py_get (elements sys) (int (aperture_index sys)) = Inr (elements sys ! aperture_index sys)"
    using assms(2) by (simp add: py_get_def)
  show ?thesis
    using assms(1) el
    by (cases "object_finite sys")
      (simp_all add: find_rays_def Let_def and_then_def hd set00_Cons set01_Cons)
qed


text \<open>
  Claim C3, as the code has it. When the matrix is invertible and the entry
  \<open>M\<^sup>-\<^sup>1[1,1]\<close> of its inverse is zero, \<^verbatim>\<open>find_rays\<close> raises nothing: it returns, and the
  two solved entries of row 0 are non-finite (\<^verbatim>\<open>inf\<close> or \<^verbatim>\<open>nan\<close>); the fixed entries
  are \<open>0\<close> and the object radius.
\<close>

theorem find_rays_zero_entry_returns:
  assumes "inv2 (paraxial_matrix sys (wavelengths sys) (aperture_index sys + 1)) = Inr mi"
    and "m11 mi = 0"
    and "aperture_index sys < length (elements sys)"
    and "pt_y s \<noteq> []" and "pt_u s \<noteq> []"
  shows "\<exists>s'. find_rays sys s = Inr s' \<and>
           (if object_finite sys
            then pt_u s' ! 0 = (NonFinite, NonFinite) \<and> pt_y s' ! 0 = (Fin 0, Fin (object_radius sys))
            else pt_y s' ! 0 = (NonFinite, NonFinite) \<and> pt_u s' ! 0 = (Fin 0, Fin (object_radius sys)))"
  using find_rays_rows[OF assms(1,3,4,5)] assms(2)
  by (simp add: Let_def np_div_def)


lemma degenerate_inverse:
  "inv2 (paraxial_matrix degenerate_system (wavelengths degenerate_system)
           (aperture_index degenerate_system + 1))
     = Inr \<lparr> m00 = 0, m01 = - 1, m10 = 1, m11 = 0 \<rparr>"
  by (simp add: degenerate_system_def example_system_def inv2_def det2_def)


theorem find_rays_degenerate_counterexample:
  "inv2 (paraxial_matrix degenerate_system (wavelengths degenerate_system)
           (aperture_index degenerate_system + 1))
     = Inr \<lparr> m00 = 0, m01 = - 1, m10 = 1, m11 = 0 \<rparr> \<and>
   map_sum id row0 (find_rays degenerate_system example_npfloat_trace)
     = Inr ((NonFinite, NonFinite), (Fin 0, Fin 3))"
  using degenerate_inverse
  by (simp add: find_rays_def and_then_def Let_def py_get_def set00_def set01_def
      row0_def np_div_def degenerate_system_def example_system_def example_npfloat_trace_def
      example_surface_def)




theorem find_rays_zero_entry_witness:
  "inv2 (paraxial_matrix degenerate_system (wavelengths degenerate_system)
           (aperture_index degenerate_system + 1))
     = Inr \<lparr> m00 = 0, m01 = - 1, m10 = 1, m11 = 0 \<rparr> \<and>
   m11 \<lparr> m00 = 0, m01 = - 1, m10 = 1, m11 = 0 \<rparr> = 0 \<and>
   aperture_index degenerate_system < length (elements degenerate_system) \<and>
   pt_y example_npfloat_trace \<noteq> [] \<and> pt_u example_npfloat_trace \<noteq> [] \<and>
   (\<exists>s'. find_rays degenerate_system example_npfloat_trace = Inr s' \<and>
         pt_y s' ! 0 = (NonFinite, NonFinite) \<and> pt_u s' ! 0 = (Fin 0, Fin 3))"
proof -
  have z: "m11 \<lparr> m00 = 0, m01 = - 1, m10 = 1, m11 = 0 \<rparr> = 0" by simp
  have a: "aperture_index degenerate_system < length (elements degenerate_system)"
    and y: "pt_y example_npfloat_trace \<noteq> []" and u: "pt_u example_npfloat_trace \<noteq> []"
    and f: "\<not> object_finite degenerate_system" "object_radius degenerate_system = 3"
    by (simp_all add: degenerate_system_def example_system_def example_npfloat_trace_def)
  show ?thesis
    using find_rays_zero_entry_returns[OF degenerate_inverse z a y u] degenerate_inverse a y u f
    by simp
qed

lemma py_get_nat: "i < length xs \<Longrightarrow> py_get xs (int i) = Inr (xs ! i)"
  by (simp add: py_get_def)

lemma py_get_from_end:
  "0 < k \<Longrightarrow> k \<le> length xs \<Longrightarrow> py_get xs (- int k) = Inr (xs ! (length xs - k))"
  by (simp add: py_get_def nat_diff_distrib' of_nat_diff)

text \<open>
  Claim C10. On arrays of \<open>N \<ge> 2\<close> rows, \<^verbatim>\<open>magnification\<close> is the pair of
  \<open>(n[0] u_m[0]) / (n[N-2] u_m[N-2])\<close> and \<open>(n[N-2] u_c[N-2]) / (n[1] u_c[0])\<close>. The
  second ratio reads \<open>n[1]\<close>: when \<open>n[0] \<noteq> n[1]\<close> (and the numerator and \<open>u_c[0]\<close> are
  not zero) it is not the ratio taken with the object-space index \<open>n[0]\<close>.
\<close>

theorem magnification_uses_index_after_first_surface:
  assumes "length (pt_n s) = N" and "length (pt_u s) = N" and "2 \<le> N"
  shows "\<exists>t a. magnification s = Inr (t, a) \<and>
           t = np_div (pt_n s ! 0 * fst (pt_u s ! 0)) (pt_n s ! (N - 2) * fst (pt_u s ! (N - 2))) \<and>
           a = np_div (pt_n s ! (N - 2) * snd (pt_u s ! (N - 2))) (pt_n s ! 1 * snd (pt_u s ! 0)) \<and>
           (pt_n s ! 0 \<noteq> pt_n s ! 1 \<and> snd (pt_u s ! 0) \<noteq> 0 \<and>
            pt_n s ! (N - 2) * snd (pt_u s ! (N - 2)) \<noteq> 0 \<longrightarrow>
              a \<noteq> np_div (pt_n s ! (N - 2) * snd (pt_u s ! (N - 2))) (pt_n s ! 0 * snd (pt_u s ! 0)))"
proof -
  have g0: "py_get (pt_n s) 0 = Inr (pt_n s ! 0)" "py_get (pt_u s) 0 = Inr (pt_u s ! 0)"
    using assms py_get_nat[of 0 "pt_n s"] py_get_nat[of 0 "pt_u s"] by simp_all
  have g1: "py_get (pt_n s) 1 = Inr (pt_n s ! 1)"
    using assms py_get_nat[of 1 "pt_n s"] by simp
  have gl: "py_get (pt_n s) (- 2) = Inr (pt_n s ! (N - 2))"
      "py_get (pt_u s) (- 2) = Inr (pt_u s ! (N - 2))"
    using assms py_get_from_end[of 2 "pt_n s"] py_get_from_end[of 2 "pt_u s"] by simp_all
  have m: "magnification s =
      Inr (np_div (pt_n s ! 0 * fst (pt_u s ! 0)) (pt_n s ! (N - 2) * fst (pt_u s ! (N - 2))),
           np_div (pt_n s ! (N - 2) * snd (pt_u s ! (N - 2))) (pt_n s ! 1 * snd (pt_u s ! 0)))"
    by (simp add: magnification_def g0 g1 gl and_then_def)
  have d: "np_div A (k1 * c) \<noteq> np_div A (k0 * c)" if "k0 \<noteq> k1" "c \<noteq> 0" "A \<noteq> 0" for A k0 k1 c :: real
    using that by (auto simp: np_div_def field_simps)
  show ?thesis using m d by auto
qed

theorem magnification_witness:
  "length (pt_n immersed_trace) = 3 \<and> length (pt_u immersed_trace) = 3 \<and> (2::nat) \<le> 3 \<and>
   pt_n immersed_trace ! 0 \<noteq> pt_n immersed_trace ! 1 \<and>
   magnification immersed_trace = Inr (Fin (- 8 / 9), Fin 1) \<and>
   np_div (pt_n immersed_trace ! (3 - 2) * snd (pt_u immersed_trace ! (3 - 2)))
          (pt_n immersed_trace ! 0 * snd (pt_u immersed_trace ! 0)) = Fin (9 / 8)"
  using magnification_uses_index_after_first_surface[of immersed_trace 3]
  by (simp add: immersed_trace_def np_div_def)

section \<open>The pupil sampler\<close>

text \<open>
  Claim C4, as the code has it. For every point count and every distribution name that is
  none of the eight names, \<^verbatim>\<open>get_rays\<close> raises nothing: no branch of the
  \<^verbatim>\<open>if/elif\<close> chain is taken and the function returns \<^verbatim>\<open>None\<close>.
\<close>

theorem get_rays_unknown_name_returns_none:
  assumes "d \<notin> {''random'', ''meridional'', ''sagittal'', ''square'', ''triangular'',
                  ''hexapolar'', ''cross'', ''tee''}"
  shows "get_rays rand d n = Inr None"
  using assms by (simp add: get_rays_def)

theorem get_rays_unknown_name_witness:
  "''spiral'' \<notin> {''random'', ''meridional'', ''sagittal'', ''square'', ''triangular'',
                  ''hexapolar'', ''cross'', ''tee''} \<and>
   get_rays (\<lambda>i j. 0) ''spiral'' 12 = Inr None"
  using get_rays_unknown_name_returns_none[of "''spiral''" "\<lambda>i j. 0" 12] by simp

theorem get_rays_unknown_name_counterexample:
  "get_rays (\<lambda>i j. 1 / 2) ''gaussian'' 100 = Inr None"
  by (simp add: get_rays_def)















section \<open>The coefficient formatter\<close>









end
